theory Spec2Isabelle
  imports Complex_Main "HOL-Library.Sublist"
begin

section \<open>Data model\<close>

text \<open>
  The interfaces of \<^verbatim>\<open>types/fingerprint\<close>. A TypeScript \<^verbatim>\<open>number\<close> is modelled as a
  \<^typ>\<open>real\<close>, with exact arithmetic. A double computes the same sums as long as they are
  sums of whole numbers, which is every sum of the function but the one with the scaled
  reputation score; a statement that needs the exact value of a sum is made for sessions
  with \<open>whole_number_reputation\<close>. The two infinities are outside the model. NaN is
  outside the records; what it does to the score is modelled on the type \<open>number\<close>
  below. The \<^verbatim>\<open>Record<string, any>\<close> fields
  (\<^verbatim>\<open>components\<close>, \<^verbatim>\<open>details\<close>) are never read by the scoring code and are left out.
  Field names that occur in two interfaces carry a prefix in all but one of them, since
  record fields share one name space.
\<close>

datatype risk_level = LOW | MEDIUM | HIGH | CRITICAL

record DeviceFingerprint =
  visitorId :: string
  confidence :: real
  fp_timestamp :: real

record IncognitoDetection =
  isIncognito :: bool
  incognito_confidence :: real
  detection_method :: string

record IPAnalysis =
  ip :: string
  country :: string
  region :: string
  city :: string
  isp :: string
  isVPN :: bool
  isTor :: bool
  isProxy :: bool
  ip_riskScore :: real
  threatTypes :: "string list"

record BehaviorAnalysis =
  mouseMovements :: real
  keystrokes :: real
  scrollEvents :: real
  timeOnPage :: real
  interactionSpeed :: real
  suspiciousPatterns :: "string list"

text \<open>
  \<^verbatim>\<open>Omit<FingerprintSession, 'riskScore' | 'riskLevel'>\<close>, the argument of both risk
  calculators. \<^verbatim>\<open>ipAnalysis\<close> has type \<^verbatim>\<open>IPAnalysis | null\<close>; every other field is
  mandatory.
\<close>

record session =
  session_id :: string
  deviceFingerprint :: DeviceFingerprint
  incognitoDetection :: IncognitoDetection
  ipAnalysis :: "IPAnalysis option"
  behaviorAnalysis :: BehaviorAnalysis
  timestamp :: real
  userAgent :: string
  screenResolution :: string
  timezone :: string
  language :: string

text \<open>The value both calculators return: \<^verbatim>\<open>{ riskScore: number; riskLevel: ... }\<close>.\<close>

record risk_result =
  riskScore :: real
  riskLevel :: risk_level


section \<open>History store (storage.client)\<close>

text \<open>
  \<^verbatim>\<open>getStoredFingerprints\<close> reads one item of \<^verbatim>\<open>localStorage\<close> and parses it as JSON.
  The model keeps what that read can yield: no item (or the empty string), a string that
  \<^verbatim>\<open>JSON.parse\<close> rejects (the exception is caught inside \<^verbatim>\<open>getStoredFingerprints\<close>), or
  a parsed value. Of a parsed value only the two history tables matter for scoring; a table
  is \<open>None\<close> when the parsed value has no such property, in which case indexing it
  throws a \<^verbatim>\<open>TypeError\<close>.
\<close>

record StoredFingerprints =
  deviceHistory :: "(string \<rightharpoonup> real) option"
  ipHistory :: "(string \<rightharpoonup> real) option"

datatype storage_item = NoItem | Unparsable | Parsed StoredFingerprints

datatype js_error = TypeError

definition defaultStored :: StoredFingerprints where
  "defaultStored = \<lparr>deviceHistory = Some Map.empty, ipHistory = Some Map.empty\<rparr>"

fun getStoredFingerprints :: "storage_item \<Rightarrow> StoredFingerprints" where
  "getStoredFingerprints NoItem = defaultStored"
| "getStoredFingerprints Unparsable = defaultStored"
| "getStoredFingerprints (Parsed v) = v"

text \<open>\<^verbatim>\<open>table[key] || 0\<close>: a missing key and a stored \<open>0\<close> both give \<open>0\<close>.\<close>

definition lookup_or_zero :: "(string \<rightharpoonup> real) \<Rightarrow> string \<Rightarrow> real" where
  "lookup_or_zero table k = (case table k of None \<Rightarrow> 0 | Some v \<Rightarrow> v)"

definition getDeviceCount :: "storage_item \<Rightarrow> string \<Rightarrow> js_error + real" where
  "getDeviceCount st deviceId =
     (case deviceHistory (getStoredFingerprints st) of
        None \<Rightarrow> Inl TypeError
      | Some table \<Rightarrow> Inr (lookup_or_zero table deviceId))"

definition getIPCount :: "storage_item \<Rightarrow> string \<Rightarrow> js_error + real" where
  "getIPCount st addr =
     (case ipHistory (getStoredFingerprints st) of
        None \<Rightarrow> Inl TypeError
      | Some table \<Rightarrow> Inr (lookup_or_zero table addr))"


section \<open>Strings\<close>

text \<open>
  \<^verbatim>\<open>String.prototype.toLowerCase\<close> on the 8-bit characters of \<^typ>\<open>string\<close> (read as
  Latin-1), and \<^verbatim>\<open>String.prototype.includes\<close> as a search for a contiguous substring.
\<close>

definition lower_char :: "char \<Rightarrow> char" where
  "lower_char c =
     (let n = (of_char c :: nat) in
      if (65 \<le> n \<and> n \<le> 90) \<or> (192 \<le> n \<and> n \<le> 222 \<and> n \<noteq> 215)
      then char_of (n + 32) else c)"

definition toLowerCase :: "string \<Rightarrow> string" where
  "toLowerCase s = map lower_char s"

fun starts_with :: "string \<Rightarrow> string \<Rightarrow> bool" where
  "starts_with s [] = True"
| "starts_with [] (c # cs) = False"
| "starts_with (d # ds) (c # cs) = (d = c \<and> starts_with ds cs)"

fun str_includes :: "string \<Rightarrow> string \<Rightarrow> bool" where
  "str_includes [] sub = (sub = [])"
| "str_includes (d # ds) sub = (starts_with (d # ds) sub \<or> str_includes ds sub)"


section \<open>The risk calculator with contributing factors\<close>

text \<open>
  The mutable locals \<^verbatim>\<open>score\<close> and \<^verbatim>\<open>riskFactors\<close> of \<^verbatim>\<open>calculateRiskScore\<close> form the
  state that each block of the function transforms.
\<close>

record scoring =
  score :: real
  riskFactors :: "string list"

definition init_scoring :: scoring where
  "init_scoring = \<lparr>score = 0, riskFactors = []\<rparr>"

text \<open>\<^verbatim>\<open>score += p;\<close>\<close>

definition add_points :: "real \<Rightarrow> scoring \<Rightarrow> scoring" where
  "add_points p acc = acc\<lparr>score := score acc + p\<rparr>"

text \<open>\<^verbatim>\<open>score += p; riskFactors.push(l);\<close>\<close>

definition add_factor :: "real \<Rightarrow> string \<Rightarrow> scoring \<Rightarrow> scoring" where
  "add_factor p l acc = acc\<lparr>score := score acc + p, riskFactors := riskFactors acc @ [l]\<rparr>"

text \<open>
  Appending the points and labels of \<open>d\<close> to a state: what a block does to the state it
  receives, when \<open>d\<close> is what the block does to the initial state.
\<close>

definition shift_by :: "scoring \<Rightarrow> scoring \<Rightarrow> scoring" where
  "shift_by d acc =
     \<lparr>score = score acc + score d, riskFactors = riskFactors acc @ riskFactors d\<rparr>"

definition step_fingerprint :: "session \<Rightarrow> scoring \<Rightarrow> scoring" where
  "step_fingerprint s acc =
     (let fpConfidence = confidence (deviceFingerprint s) in
      if fpConfidence < 0.3 then add_factor 40 ''very-low-fingerprint-confidence'' acc
      else if fpConfidence < 0.5 then add_factor 25 ''low-fingerprint-confidence'' acc
      else if fpConfidence < 0.7 then add_factor 10 ''medium-fingerprint-confidence'' acc
      else acc)"

definition step_incognito :: "session \<Rightarrow> scoring \<Rightarrow> scoring" where
  "step_incognito s acc =
     (if isIncognito (incognitoDetection s) then
        (let c = incognito_confidence (incognitoDetection s) in
         if c > 0.8 then add_factor 35 ''confirmed-incognito'' acc
         else if c > 0.5 then add_factor 25 ''likely-incognito'' acc
         else add_factor 15 ''possible-incognito'' acc)
      else acc)"

definition step_ip :: "session \<Rightarrow> scoring \<Rightarrow> scoring" where
  "step_ip s acc =
     (case ipAnalysis s of
        None \<Rightarrow> acc
      | Some a \<Rightarrow>
         (let ipRisk = ip_riskScore a;
              acc = add_points (ipRisk * 0.4) acc;
              acc = (if isVPN a then add_factor 30 ''vpn-detected'' acc else acc);
              acc = (if isTor a then add_factor 50 ''tor-detected'' acc else acc);
              acc = (if isProxy a then add_factor 20 ''proxy-detected'' acc else acc);
              threats = threatTypes a;
              acc = (if ''hosting-provider'' \<in> set threats
                     then add_factor 15 ''hosting-provider'' acc else acc);
              acc = (if ''known-vpn'' \<in> set threats
                     then add_factor 25 ''known-vpn-service'' acc else acc);
              acc = (if ''blacklisted'' \<in> set threats
                     then add_factor 40 ''blacklisted-ip'' acc else acc);
              acc = (if ''high-risk'' \<in> set threats
                     then add_factor 30 ''high-risk-ip'' acc else acc)
          in acc))"

definition step_patterns :: "session \<Rightarrow> scoring \<Rightarrow> scoring" where
  "step_patterns s acc =
     (let suspicious = suspiciousPatterns (behaviorAnalysis s);
          acc = add_points (real (length suspicious) * 12) acc;
          acc = (if ''inhuman-mouse-speed'' \<in> set suspicious
                 then add_factor 20 ''bot-like-mouse-movement'' acc else acc);
          acc = (if ''inhuman-typing-speed'' \<in> set suspicious
                 then add_factor 25 ''bot-like-typing'' acc else acc);
          acc = (if ''consistent-keystroke-timing'' \<in> set suspicious
                 then add_factor 30 ''automated-input'' acc else acc);
          acc = (if ''straight-mouse-lines'' \<in> set suspicious
                 then add_factor 15 ''scripted-mouse-movement'' acc else acc)
      in acc)"

definition step_speed :: "session \<Rightarrow> scoring \<Rightarrow> scoring" where
  "step_speed s acc =
     (let speed = interactionSpeed (behaviorAnalysis s) in
      if speed > 2000 then add_factor 25 ''superhuman-interaction-speed'' acc
      else if speed > 1000 then add_factor 15 ''very-fast-interactions'' acc
      else acc)"

definition totalInteractions :: "BehaviorAnalysis \<Rightarrow> real" where
  "totalInteractions b = mouseMovements b + keystrokes b + scrollEvents b"

definition step_burst :: "session \<Rightarrow> scoring \<Rightarrow> scoring" where
  "step_burst s acc =
     (let t = timeOnPage (behaviorAnalysis s);
          total = totalInteractions (behaviorAnalysis s) in
      if t < 3000 \<and> total > 100 then add_factor 35 ''rapid-fire-interactions'' acc
      else if t < 5000 \<and> total > 50 then add_factor 20 ''fast-interaction-burst'' acc
      else acc)"

definition step_minimal :: "session \<Rightarrow> scoring \<Rightarrow> scoring" where
  "step_minimal s acc =
     (let t = timeOnPage (behaviorAnalysis s);
          total = totalInteractions (behaviorAnalysis s) in
      if t > 30000 \<and> total < 5 then add_factor 20 ''minimal-interaction'' acc else acc)"

text \<open>
  The \<^verbatim>\<open>try\<close> block: an exception of \<^verbatim>\<open>getDeviceCount\<close> skips the whole block, one of
  \<^verbatim>\<open>getIPCount\<close> keeps what the device counter has already added.
\<close>

definition step_device_count :: "real \<Rightarrow> scoring \<Rightarrow> scoring" where
  "step_device_count deviceCount acc =
     (if deviceCount > 20 then add_factor 25 ''frequent-device-reuse'' acc
      else if deviceCount > 10 then add_factor 15 ''repeated-device-usage'' acc
      else acc)"

definition step_ip_count :: "real \<Rightarrow> scoring \<Rightarrow> scoring" where
  "step_ip_count ipCount acc =
     (if ipCount > 50 then add_factor 30 ''ip-abuse-pattern'' acc
      else if ipCount > 20 then add_factor 20 ''frequent-ip-usage'' acc
      else acc)"

definition step_history :: "storage_item \<Rightarrow> session \<Rightarrow> scoring \<Rightarrow> scoring" where
  "step_history st s acc =
     (case getDeviceCount st (visitorId (deviceFingerprint s)) of
        Inl e \<Rightarrow> acc
      | Inr deviceCount \<Rightarrow>
         (let acc = step_device_count deviceCount acc in
          case ipAnalysis s of
            None \<Rightarrow> acc
          | Some a \<Rightarrow>
             (case getIPCount st (ip a) of
                Inl e \<Rightarrow> acc
              | Inr ipCount \<Rightarrow> step_ip_count ipCount acc)))"

text \<open>The four conditions on the lower-cased user agent, named after their comments.\<close>

definition ua_headless :: "string \<Rightarrow> bool" where
  "ua_headless ua \<longleftrightarrow>
     str_includes ua ''headless'' \<or> str_includes ua ''phantom'' \<or>
     str_includes ua ''selenium'' \<or> str_includes ua ''chromedriver''"

definition ua_automation :: "string \<Rightarrow> bool" where
  "ua_automation ua \<longleftrightarrow>
     str_includes ua ''puppeteer'' \<or> str_includes ua ''playwright'' \<or>
     str_includes ua ''webdriver''"

definition ua_bot :: "string \<Rightarrow> bool" where
  "ua_bot ua \<longleftrightarrow>
     str_includes ua ''bot'' \<or> str_includes ua ''crawler'' \<or> str_includes ua ''spider''"

definition ua_outdated :: "string \<Rightarrow> bool" where
  "ua_outdated ua \<longleftrightarrow> str_includes ua ''msie'' \<or> str_includes ua ''internet explorer''"

definition step_user_agent :: "session \<Rightarrow> scoring \<Rightarrow> scoring" where
  "step_user_agent s acc =
     (let ua = toLowerCase (userAgent s);
          acc = (if ua_headless ua then add_factor 60 ''headless-browser'' acc else acc);
          acc = (if ua_automation ua then add_factor 55 ''automation-tool'' acc else acc);
          acc = (if ua_bot ua then add_factor 40 ''bot-user-agent'' acc else acc);
          acc = (if ua_outdated ua then add_factor 10 ''outdated-browser'' acc else acc)
      in acc)"

definition step_screen :: "session \<Rightarrow> scoring \<Rightarrow> scoring" where
  "step_screen s acc =
     (let screenRes = screenResolution s in
      if screenRes = ''0x0'' \<or> screenRes = ''1x1''
      then add_factor 45 ''invalid-screen-resolution'' acc else acc)"

text \<open>\<^verbatim>\<open>!timezone\<close> holds of the empty string only, the field being a string.\<close>

definition step_timezone :: "session \<Rightarrow> scoring \<Rightarrow> scoring" where
  "step_timezone s acc =
     (if timezone s = [] \<or> timezone s = ''UTC''
      then add_factor 10 ''suspicious-timezone'' acc else acc)"

definition step_language :: "session \<Rightarrow> scoring \<Rightarrow> scoring" where
  "step_language s acc =
     (if language s = [] \<or> language s = ''en'' \<or> language s = ''en-US''
      then add_points 2 acc else acc)"

text \<open>The body of the function down to the clamp, in source order.\<close>

definition accumulate :: "storage_item \<Rightarrow> session \<Rightarrow> scoring" where
  "accumulate st s =
     (let acc = init_scoring;
          acc = step_fingerprint s acc;
          acc = step_incognito s acc;
          acc = step_ip s acc;
          acc = step_patterns s acc;
          acc = step_speed s acc;
          acc = step_burst s acc;
          acc = step_minimal s acc;
          acc = step_history st s acc;
          acc = step_user_agent s acc;
          acc = step_screen s acc;
          acc = step_timezone s acc;
          acc = step_language s acc
      in acc)"

text \<open>\<^verbatim>\<open>Math.round\<close>: the nearest integer, a tie going up.\<close>

definition Math_round :: "real \<Rightarrow> real" where
  "Math_round x = real_of_int \<lfloor>x + 1 / 2\<rfloor>"

definition clamp_score :: "real \<Rightarrow> real" where
  "clamp_score x = max 0 (min 100 (Math_round x))"

definition level_of :: "real \<Rightarrow> risk_level" where
  "level_of sc =
     (if sc \<ge> 85 then CRITICAL
      else if sc \<ge> 65 then HIGH
      else if sc \<ge> 35 then MEDIUM
      else LOW)"

definition calculateRiskScore :: "storage_item \<Rightarrow> session \<Rightarrow> risk_result" where
  "calculateRiskScore st s =
     (let sc = clamp_score (score (accumulate st s)) in
      \<lparr>riskScore = sc, riskLevel = level_of sc\<rparr>)"

text \<open>The order of the tiers, for statements about monotonicity.\<close>

fun level_rank :: "risk_level \<Rightarrow> nat" where
  "level_rank LOW = 0"
| "level_rank MEDIUM = 1"
| "level_rank HIGH = 2"
| "level_rank CRITICAL = 3"


section \<open>A score that may be NaN\<close>

text \<open>
  A \<^verbatim>\<open>number\<close> is NaN or a value. Addition and multiplication give NaN as soon as an
  operand is NaN, \<^verbatim>\<open>Math.round\<close>, \<^verbatim>\<open>Math.min\<close> and \<^verbatim>\<open>Math.max\<close> return NaN for a NaN
  argument, and every comparison with NaN is false. \<open>finish_js\<close> is the end of the
  function, from the clamp to the return, on such a score.
\<close>

datatype number = NaN | Num real



definition js_round :: "number \<Rightarrow> number" where
  "js_round x = (case x of NaN \<Rightarrow> NaN | Num a \<Rightarrow> Num (Math_round a))"

definition js_min :: "number \<Rightarrow> number \<Rightarrow> number" where
  "js_min x y = (case (x, y) of (Num a, Num b) \<Rightarrow> Num (min a b) | _ \<Rightarrow> NaN)"

definition js_max :: "number \<Rightarrow> number \<Rightarrow> number" where
  "js_max x y = (case (x, y) of (Num a, Num b) \<Rightarrow> Num (max a b) | _ \<Rightarrow> NaN)"

text \<open>\<^verbatim>\<open>x >= y\<close>\<close>

definition js_ge :: "number \<Rightarrow> number \<Rightarrow> bool" where
  "js_ge x y = (case (x, y) of (Num a, Num b) \<Rightarrow> a \<ge> b | _ \<Rightarrow> False)"

definition js_level_of :: "number \<Rightarrow> risk_level" where
  "js_level_of sc =
     (if js_ge sc (Num 85) then CRITICAL
      else if js_ge sc (Num 65) then HIGH
      else if js_ge sc (Num 35) then MEDIUM
      else LOW)"

record js_result =
  js_riskScore :: number
  js_riskLevel :: risk_level

definition finish_js :: "number \<Rightarrow> js_result" where
  "finish_js sc0 =
     (let sc = js_max (Num 0) (js_min (Num 100) (js_round sc0)) in
      \<lparr>js_riskScore = sc, js_riskLevel = js_level_of sc\<rparr>)"

text \<open>
  Sessions on which every addition of the function adds whole numbers: those without a
  network signal and those whose reputation score is a multiple of 5 from 0 to 100, for
  which the product with 0.4 is a whole number in doubles as well.
\<close>

definition whole_number_reputation :: "session \<Rightarrow> bool" where
  "whole_number_reputation s \<longleftrightarrow>
     (case ipAnalysis s of
        None \<Rightarrow> True
      | Some a \<Rightarrow> ip_riskScore a \<in> set (map (\<lambda>k. 5 * real k) [0..<21]))"


section \<open>The risk calculator of utils/risk-calculator.ts\<close>

text \<open>
  The second \<^verbatim>\<open>calculateRiskScore\<close> of the repository keeps a score only. It reads the
  same history store, does not round, and has its own weights and tier boundaries.
\<close>

definition basic_fingerprint :: "session \<Rightarrow> real \<Rightarrow> real" where
  "basic_fingerprint s sc =
     (let fpConfidence = confidence (deviceFingerprint s) in
      if fpConfidence < 0.5 then sc + 30
      else if fpConfidence < 0.7 then sc + 15
      else sc)"

definition basic_incognito :: "session \<Rightarrow> real \<Rightarrow> real" where
  "basic_incognito s sc = (if isIncognito (incognitoDetection s) then sc + 25 else sc)"

definition basic_ip :: "session \<Rightarrow> real \<Rightarrow> real" where
  "basic_ip s sc =
     (case ipAnalysis s of
        None \<Rightarrow> sc
      | Some a \<Rightarrow>
         (let sc = sc + ip_riskScore a * 0.3;
              sc = (if isVPN a then sc + 20 else sc);
              sc = (if isTor a then sc + 40 else sc);
              sc = (if isProxy a then sc + 15 else sc)
          in sc))"

definition basic_behavior :: "session \<Rightarrow> real \<Rightarrow> real" where
  "basic_behavior s sc =
     (let behavior = behaviorAnalysis s;
          sc = sc + real (length (suspiciousPatterns behavior)) * 10;
          sc = (if interactionSpeed behavior > 1000 then sc + 20 else sc);
          sc = (if interactionSpeed behavior < 10 \<and> timeOnPage behavior > 30000
                then sc + 15 else sc);
          sc = (if timeOnPage behavior < 5000
                   \<and> mouseMovements behavior + keystrokes behavior > 50
                then sc + 25 else sc)
      in sc)"

definition basic_history :: "storage_item \<Rightarrow> session \<Rightarrow> real \<Rightarrow> real" where
  "basic_history st s sc =
     (case getDeviceCount st (visitorId (deviceFingerprint s)) of
        Inl e \<Rightarrow> sc
      | Inr deviceCount \<Rightarrow>
         (let sc = (if deviceCount > 5 then sc + 10 else sc) in
          case ipAnalysis s of
            None \<Rightarrow> sc
          | Some a \<Rightarrow>
             (case getIPCount st (ip a) of
                Inl e \<Rightarrow> sc
              | Inr ipCount \<Rightarrow> if ipCount > 10 then sc + 15 else sc)))"

definition basic_user_agent :: "session \<Rightarrow> real \<Rightarrow> real" where
  "basic_user_agent s sc =
     (let ua = toLowerCase (userAgent s) in
      if str_includes ua ''headless'' \<or> str_includes ua ''phantom'' \<or>
         str_includes ua ''selenium''
      then sc + 50 else sc)"

definition basic_level_of :: "real \<Rightarrow> risk_level" where
  "basic_level_of sc =
     (if sc \<ge> 80 then CRITICAL
      else if sc \<ge> 60 then HIGH
      else if sc \<ge> 30 then MEDIUM
      else LOW)"

definition calculateRiskScore_basic :: "storage_item \<Rightarrow> session \<Rightarrow> risk_result" where
  "calculateRiskScore_basic st s =
     (let sc = 0;
          sc = basic_fingerprint s sc;
          sc = basic_incognito s sc;
          sc = basic_ip s sc;
          sc = basic_behavior s sc;
          sc = basic_history st s sc;
          sc = basic_user_agent s sc;
          sc = max 0 (min 100 sc)
      in \<lparr>riskScore = sc, riskLevel = basic_level_of sc\<rparr>)"


section \<open>Catalogue of the factor labels\<close>

text \<open>
  Every \<^verbatim>\<open>riskFactors.push\<close> of the function with the points added beside it, in source
  order, and the three additions that come without a label.
\<close>

definition factor_table :: "(string \<times> real) list" where
  "factor_table =
     [(''very-low-fingerprint-confidence'', 40),
      (''low-fingerprint-confidence'', 25),
      (''medium-fingerprint-confidence'', 10),
      (''confirmed-incognito'', 35),
      (''likely-incognito'', 25),
      (''possible-incognito'', 15),
      (''vpn-detected'', 30),
      (''tor-detected'', 50),
      (''proxy-detected'', 20),
      (''hosting-provider'', 15),
      (''known-vpn-service'', 25),
      (''blacklisted-ip'', 40),
      (''high-risk-ip'', 30),
      (''bot-like-mouse-movement'', 20),
      (''bot-like-typing'', 25),
      (''automated-input'', 30),
      (''scripted-mouse-movement'', 15),
      (''superhuman-interaction-speed'', 25),
      (''very-fast-interactions'', 15),
      (''rapid-fire-interactions'', 35),
      (''fast-interaction-burst'', 20),
      (''minimal-interaction'', 20),
      (''frequent-device-reuse'', 25),
      (''repeated-device-usage'', 15),
      (''ip-abuse-pattern'', 30),
      (''frequent-ip-usage'', 20),
      (''headless-browser'', 60),
      (''automation-tool'', 55),
      (''bot-user-agent'', 40),
      (''outdated-browser'', 10),
      (''invalid-screen-resolution'', 45),
      (''suspicious-timezone'', 10)]"

definition all_factors :: "string list" where
  "all_factors = map fst factor_table"

definition factor_points :: "string \<Rightarrow> real" where
  "factor_points l = (case map_of factor_table l of None \<Rightarrow> 0 | Some p \<Rightarrow> p)"

definition unlabelled_points :: "session \<Rightarrow> real" where
  "unlabelled_points s =
     (case ipAnalysis s of None \<Rightarrow> 0 | Some a \<Rightarrow> ip_riskScore a * 0.4)
     + real (length (suspiciousPatterns (behaviorAnalysis s))) * 12
     + (if language s = [] \<or> language s = ''en'' \<or> language s = ''en-US'' then 2 else 0)"


section \<open>Input clamping as the specification words it\<close>

text \<open>
  The specification speaks of confidences clamped to \<open>[0, 1]\<close>, counts made non-negative
  and a reputation score clamped to \<open>[0, 100]\<close>. These functions follow those words; the
  source has no counterpart.
\<close>

definition clamp_range :: "real \<Rightarrow> real \<Rightarrow> real \<Rightarrow> real" where
  "clamp_range lo hi x = max lo (min hi x)"

definition spec_clamp_confidences :: "session \<Rightarrow> session" where
  "spec_clamp_confidences s =
     s\<lparr>deviceFingerprint :=
         (deviceFingerprint s)\<lparr>confidence := clamp_range 0 1 (confidence (deviceFingerprint s))\<rparr>,
       incognitoDetection :=
         (incognitoDetection s)\<lparr>incognito_confidence :=
            clamp_range 0 1 (incognito_confidence (incognitoDetection s))\<rparr>\<rparr>"

definition spec_clamp_behavior :: "BehaviorAnalysis \<Rightarrow> BehaviorAnalysis" where
  "spec_clamp_behavior b =
     b\<lparr>mouseMovements := max 0 (mouseMovements b),
       keystrokes := max 0 (keystrokes b),
       scrollEvents := max 0 (scrollEvents b),
       timeOnPage := max 0 (timeOnPage b),
       interactionSpeed := max 0 (interactionSpeed b)\<rparr>"

definition spec_clamp_ip :: "IPAnalysis \<Rightarrow> IPAnalysis" where
  "spec_clamp_ip a = a\<lparr>ip_riskScore := clamp_range 0 100 (ip_riskScore a)\<rparr>"

definition spec_clamp_inputs :: "session \<Rightarrow> session" where
  "spec_clamp_inputs s =
     (spec_clamp_confidences s)
       \<lparr>ipAnalysis := map_option spec_clamp_ip (ipAnalysis s),
        behaviorAnalysis := spec_clamp_behavior (behaviorAnalysis s)\<rparr>"


section \<open>Example sessions and stores\<close>

definition clean_session :: session where
  "clean_session =
     \<lparr>session_id = ''s1'',
      deviceFingerprint = \<lparr>visitorId = ''dev-1'', confidence = 0.9, fp_timestamp = 0\<rparr>,
      incognitoDetection =
        \<lparr>isIncognito = False, incognito_confidence = 0, detection_method = ''multi-test''\<rparr>,
      ipAnalysis = None,
      behaviorAnalysis =
        \<lparr>mouseMovements = 0, keystrokes = 0, scrollEvents = 0, timeOnPage = 1000,
         interactionSpeed = 0, suspiciousPatterns = []\<rparr>,
      timestamp = 0,
      userAgent = ''Mozilla/5.0 (X11; Linux x86_64) Gecko/20100101 Firefox/120.0'',
      screenResolution = ''1920x1080'',
      timezone = ''Europe/Paris'',
      language = ''fr-FR''\<rparr>"

definition clean_ip :: IPAnalysis where
  "clean_ip =
     \<lparr>ip = ''203.0.113.7'', country = ''Unknown'', region = ''Unknown'', city = ''Unknown'',
      isp = ''Unknown'', isVPN = False, isTor = False, isProxy = False, ip_riskScore = 0,
      threatTypes = []\<rparr>"

text \<open>Scenario A of the specification, once with a neutral language and once with \<^verbatim>\<open>en-US\<close>.\<close>

definition scenario_a :: session where
  "scenario_a =
     clean_session
       \<lparr>deviceFingerprint := \<lparr>visitorId = ''dev-1'', confidence = 0.2, fp_timestamp = 0\<rparr>,
        behaviorAnalysis :=
          \<lparr>mouseMovements = 6, keystrokes = 3, scrollEvents = 1, timeOnPage = 60000,
           interactionSpeed = 10, suspiciousPatterns = []\<rparr>\<rparr>"

definition scenario_a_en :: session where
  "scenario_a_en = scenario_a\<lparr>language := ''en-US''\<rparr>"

text \<open>A store in which the device of the examples has been seen eleven times.\<close>

definition seen_store :: storage_item where
  "seen_store = Parsed \<lparr>deviceHistory = Some [''dev-1'' \<mapsto> 11], ipHistory = Some Map.empty\<rparr>"

text \<open>Another store, with the same counters as an empty one for the device of the examples.\<close>

definition other_store :: storage_item where
  "other_store = Parsed \<lparr>deviceHistory = Some [''dev-2'' \<mapsto> 30], ipHistory = Some Map.empty\<rparr>"

definition low_confidence_session :: session where
  "low_confidence_session =
     clean_session
       \<lparr>deviceFingerprint := \<lparr>visitorId = ''dev-1'', confidence = 0.2, fp_timestamp = 0\<rparr>\<rparr>"

definition blacklisted_session :: session where
  "blacklisted_session =
     clean_session\<lparr>ipAnalysis := Some (clean_ip\<lparr>threatTypes := [''blacklisted'']\<rparr>)\<rparr>"

definition incognito_session :: session where
  "incognito_session =
     low_confidence_session
       \<lparr>incognitoDetection :=
          \<lparr>isIncognito = True, incognito_confidence = 0.9, detection_method = ''multi-test''\<rparr>\<rparr>"

definition english_session :: session where
  "english_session = clean_session\<lparr>language := ''en''\<rparr>"

definition overrated_session :: session where
  "overrated_session = clean_session\<lparr>ipAnalysis := Some (clean_ip\<lparr>ip_riskScore := 250\<rparr>)\<rparr>"

text \<open>A blacklisted address with reputation 50, and a default language.\<close>

definition rated_session :: session where
  "rated_session =
     clean_session
       \<lparr>ipAnalysis := Some (clean_ip\<lparr>ip_riskScore := 50, threatTypes := [''blacklisted'']\<rparr>),
        language := ''en''\<rparr>"

text \<open>A negative event count: two interactions in all, over forty seconds.\<close>

definition negative_count_session :: session where
  "negative_count_session =
     clean_session
       \<lparr>behaviorAnalysis :=
          \<lparr>mouseMovements = - 10, keystrokes = 12, scrollEvents = 0, timeOnPage = 40000,
           interactionSpeed = 0, suspiciousPatterns = []\<rparr>\<rparr>"

definition headless_session :: session where
  "headless_session = clean_session\<lparr>userAgent := ''Mozilla/5.0 HeadlessChrome/120.0''\<rparr>"

definition headless_webdriver_session :: session where
  "headless_webdriver_session =
     clean_session\<lparr>userAgent := ''Mozilla/5.0 HeadlessChrome/120.0 webdriver''\<rparr>"


section \<open>Every block adds to the state it receives\<close>

lemma add_points_proj [simp]:
  "score (add_points p acc) = score acc + p"
  "riskFactors (add_points p acc) = riskFactors acc"
  by (simp_all add: add_points_def)

lemma add_factor_proj [simp]:
  "score (add_factor p l acc) = score acc + p"
  "riskFactors (add_factor p l acc) = riskFactors acc @ [l]"
  by (simp_all add: add_factor_def)

lemma init_proj [simp]: "score init_scoring = 0" "riskFactors init_scoring = []"
  by (simp_all add: init_scoring_def)

lemma shift_by_proj [simp]:
  "score (shift_by d acc) = score acc + score d"
  "riskFactors (shift_by d acc) = riskFactors acc @ riskFactors d"
  by (simp_all add: shift_by_def)

lemma scoring_eqI: "score a = score b \<Longrightarrow> riskFactors a = riskFactors b \<Longrightarrow> a = (b::scoring)"
  by simp

lemma step_fingerprint_shift: "step_fingerprint s acc = shift_by (step_fingerprint s init_scoring) acc"
  by (rule scoring_eqI) (simp_all add: step_fingerprint_def Let_def)

lemma step_incognito_shift: "step_incognito s acc = shift_by (step_incognito s init_scoring) acc"
  by (rule scoring_eqI) (simp_all add: step_incognito_def Let_def)

lemma step_ip_shift: "step_ip s acc = shift_by (step_ip s init_scoring) acc"
  by (rule scoring_eqI) (simp_all add: step_ip_def Let_def split: option.split)

lemma step_patterns_shift: "step_patterns s acc = shift_by (step_patterns s init_scoring) acc"
  by (rule scoring_eqI) (simp_all add: step_patterns_def Let_def)

lemma step_speed_shift: "step_speed s acc = shift_by (step_speed s init_scoring) acc"
  by (rule scoring_eqI) (simp_all add: step_speed_def Let_def)

lemma step_burst_shift: "step_burst s acc = shift_by (step_burst s init_scoring) acc"
  by (rule scoring_eqI) (simp_all add: step_burst_def Let_def)

lemma step_minimal_shift: "step_minimal s acc = shift_by (step_minimal s init_scoring) acc"
  by (rule scoring_eqI) (simp_all add: step_minimal_def Let_def)

lemma step_history_shift: "step_history st s acc = shift_by (step_history st s init_scoring) acc"
  by (rule scoring_eqI)
     (simp_all add: step_history_def step_device_count_def step_ip_count_def Let_def
        split: option.split sum.split)

lemma step_user_agent_shift: "step_user_agent s acc = shift_by (step_user_agent s init_scoring) acc"
  by (rule scoring_eqI) (simp_all add: step_user_agent_def Let_def)

lemma step_screen_shift: "step_screen s acc = shift_by (step_screen s init_scoring) acc"
  by (rule scoring_eqI) (simp_all add: step_screen_def Let_def)

lemma step_timezone_shift: "step_timezone s acc = shift_by (step_timezone s init_scoring) acc"
  by (rule scoring_eqI) (simp_all add: step_timezone_def Let_def)

lemma step_language_shift: "step_language s acc = shift_by (step_language s init_scoring) acc"
  by (rule scoring_eqI) (simp_all add: step_language_def Let_def)

lemma accumulate_score:
  "score (accumulate st s) =
     score (step_fingerprint s init_scoring) + score (step_incognito s init_scoring)
     + score (step_ip s init_scoring) + score (step_patterns s init_scoring)
     + score (step_speed s init_scoring) + score (step_burst s init_scoring)
     + score (step_minimal s init_scoring) + score (step_history st s init_scoring)
     + score (step_user_agent s init_scoring) + score (step_screen s init_scoring)
     + score (step_timezone s init_scoring) + score (step_language s init_scoring)"
  unfolding accumulate_def Let_def
  apply (subst step_language_shift)
  apply (subst step_timezone_shift)
  apply (subst step_screen_shift)
  apply (subst step_user_agent_shift)
  apply (subst step_history_shift)
  apply (subst step_minimal_shift)
  apply (subst step_burst_shift)
  apply (subst step_speed_shift)
  apply (subst step_patterns_shift)
  apply (subst step_ip_shift)
  apply (subst step_incognito_shift)
  apply simp
  done

lemma accumulate_factors:
  "riskFactors (accumulate st s) =
     riskFactors (step_fingerprint s init_scoring) @ riskFactors (step_incognito s init_scoring)
     @ riskFactors (step_ip s init_scoring) @ riskFactors (step_patterns s init_scoring)
     @ riskFactors (step_speed s init_scoring) @ riskFactors (step_burst s init_scoring)
     @ riskFactors (step_minimal s init_scoring) @ riskFactors (step_history st s init_scoring)
     @ riskFactors (step_user_agent s init_scoring) @ riskFactors (step_screen s init_scoring)
     @ riskFactors (step_timezone s init_scoring) @ riskFactors (step_language s init_scoring)"
  unfolding accumulate_def Let_def
  apply (subst step_language_shift)
  apply (subst step_timezone_shift)
  apply (subst step_screen_shift)
  apply (subst step_user_agent_shift)
  apply (subst step_history_shift)
  apply (subst step_minimal_shift)
  apply (subst step_burst_shift)
  apply (subst step_speed_shift)
  apply (subst step_patterns_shift)
  apply (subst step_ip_shift)
  apply (subst step_incognito_shift)
  apply simp
  done


section \<open>Labels and their points\<close>

lemma factor_points_simps:
  "factor_points ''very-low-fingerprint-confidence'' = 40"
  "factor_points ''low-fingerprint-confidence'' = 25"
  "factor_points ''medium-fingerprint-confidence'' = 10"
  "factor_points ''confirmed-incognito'' = 35"
  "factor_points ''likely-incognito'' = 25"
  "factor_points ''possible-incognito'' = 15"
  "factor_points ''vpn-detected'' = 30"
  "factor_points ''tor-detected'' = 50"
  "factor_points ''proxy-detected'' = 20"
  "factor_points ''hosting-provider'' = 15"
  "factor_points ''known-vpn-service'' = 25"
  "factor_points ''blacklisted-ip'' = 40"
  "factor_points ''high-risk-ip'' = 30"
  "factor_points ''bot-like-mouse-movement'' = 20"
  "factor_points ''bot-like-typing'' = 25"
  "factor_points ''automated-input'' = 30"
  "factor_points ''scripted-mouse-movement'' = 15"
  "factor_points ''superhuman-interaction-speed'' = 25"
  "factor_points ''very-fast-interactions'' = 15"
  "factor_points ''rapid-fire-interactions'' = 35"
  "factor_points ''fast-interaction-burst'' = 20"
  "factor_points ''minimal-interaction'' = 20"
  "factor_points ''frequent-device-reuse'' = 25"
  "factor_points ''repeated-device-usage'' = 15"
  "factor_points ''ip-abuse-pattern'' = 30"
  "factor_points ''frequent-ip-usage'' = 20"
  "factor_points ''headless-browser'' = 60"
  "factor_points ''automation-tool'' = 55"
  "factor_points ''bot-user-agent'' = 40"
  "factor_points ''outdated-browser'' = 10"
  "factor_points ''invalid-screen-resolution'' = 45"
  "factor_points ''suspicious-timezone'' = 10"
  by (simp_all add: factor_points_def factor_table_def)

lemma all_factors_distinct: "distinct all_factors"
  by (simp add: all_factors_def factor_table_def)

lemma fingerprint_labelled:
  "subseq (riskFactors (step_fingerprint s init_scoring))
     [''very-low-fingerprint-confidence'', ''low-fingerprint-confidence'',
      ''medium-fingerprint-confidence'']
   \<and> score (step_fingerprint s init_scoring)
       = sum_list (map factor_points (riskFactors (step_fingerprint s init_scoring)))"
  by (simp add: step_fingerprint_def Let_def factor_points_simps)

lemma incognito_labelled:
  "subseq (riskFactors (step_incognito s init_scoring))
     [''confirmed-incognito'', ''likely-incognito'', ''possible-incognito'']
   \<and> score (step_incognito s init_scoring)
       = sum_list (map factor_points (riskFactors (step_incognito s init_scoring)))"
  by (simp add: step_incognito_def Let_def factor_points_simps)

lemma ip_labelled:
  "subseq (riskFactors (step_ip s init_scoring))
     [''vpn-detected'', ''tor-detected'', ''proxy-detected'', ''hosting-provider'',
      ''known-vpn-service'', ''blacklisted-ip'', ''high-risk-ip'']
   \<and> score (step_ip s init_scoring)
       = sum_list (map factor_points (riskFactors (step_ip s init_scoring)))
         + (case ipAnalysis s of None \<Rightarrow> 0 | Some a \<Rightarrow> ip_riskScore a * 0.4)"
  by (simp add: step_ip_def Let_def factor_points_simps split: option.split)

lemma patterns_labelled:
  "subseq (riskFactors (step_patterns s init_scoring))
     [''bot-like-mouse-movement'', ''bot-like-typing'', ''automated-input'',
      ''scripted-mouse-movement'']
   \<and> score (step_patterns s init_scoring)
       = sum_list (map factor_points (riskFactors (step_patterns s init_scoring)))
         + real (length (suspiciousPatterns (behaviorAnalysis s))) * 12"
  by (simp add: step_patterns_def Let_def factor_points_simps)

lemma speed_labelled:
  "subseq (riskFactors (step_speed s init_scoring))
     [''superhuman-interaction-speed'', ''very-fast-interactions'']
   \<and> score (step_speed s init_scoring)
       = sum_list (map factor_points (riskFactors (step_speed s init_scoring)))"
  by (simp add: step_speed_def Let_def factor_points_simps)

lemma burst_labelled:
  "subseq (riskFactors (step_burst s init_scoring))
     [''rapid-fire-interactions'', ''fast-interaction-burst'']
   \<and> score (step_burst s init_scoring)
       = sum_list (map factor_points (riskFactors (step_burst s init_scoring)))"
  by (simp add: step_burst_def Let_def factor_points_simps)

lemma minimal_labelled:
  "subseq (riskFactors (step_minimal s init_scoring)) [''minimal-interaction'']
   \<and> score (step_minimal s init_scoring)
       = sum_list (map factor_points (riskFactors (step_minimal s init_scoring)))"
  by (simp add: step_minimal_def Let_def factor_points_simps)

lemma history_labelled:
  "subseq (riskFactors (step_history st s init_scoring))
     [''frequent-device-reuse'', ''repeated-device-usage'', ''ip-abuse-pattern'',
      ''frequent-ip-usage'']
   \<and> score (step_history st s init_scoring)
       = sum_list (map factor_points (riskFactors (step_history st s init_scoring)))"
  by (simp add: step_history_def step_device_count_def step_ip_count_def Let_def
        factor_points_simps split: option.split sum.split)

lemma user_agent_labelled:
  "subseq (riskFactors (step_user_agent s init_scoring))
     [''headless-browser'', ''automation-tool'', ''bot-user-agent'', ''outdated-browser'']
   \<and> score (step_user_agent s init_scoring)
       = sum_list (map factor_points (riskFactors (step_user_agent s init_scoring)))"
  by (simp add: step_user_agent_def Let_def factor_points_simps)

lemma screen_labelled:
  "subseq (riskFactors (step_screen s init_scoring)) [''invalid-screen-resolution'']
   \<and> score (step_screen s init_scoring)
       = sum_list (map factor_points (riskFactors (step_screen s init_scoring)))"
  by (simp add: step_screen_def Let_def factor_points_simps)

lemma timezone_labelled:
  "subseq (riskFactors (step_timezone s init_scoring)) [''suspicious-timezone'']
   \<and> score (step_timezone s init_scoring)
       = sum_list (map factor_points (riskFactors (step_timezone s init_scoring)))"
  by (simp add: step_timezone_def Let_def factor_points_simps)

lemma language_unlabelled:
  "riskFactors (step_language s init_scoring) = []
   \<and> score (step_language s init_scoring)
       = (if language s = [] \<or> language s = ''en'' \<or> language s = ''en-US'' then 2 else 0)"
  by (simp add: step_language_def)

lemma all_factors_split:
  "all_factors =
     [''very-low-fingerprint-confidence'', ''low-fingerprint-confidence'',
      ''medium-fingerprint-confidence'']
     @ [''confirmed-incognito'', ''likely-incognito'', ''possible-incognito'']
     @ [''vpn-detected'', ''tor-detected'', ''proxy-detected'', ''hosting-provider'',
        ''known-vpn-service'', ''blacklisted-ip'', ''high-risk-ip'']
     @ [''bot-like-mouse-movement'', ''bot-like-typing'', ''automated-input'',
        ''scripted-mouse-movement'']
     @ [''superhuman-interaction-speed'', ''very-fast-interactions'']
     @ [''rapid-fire-interactions'', ''fast-interaction-burst'']
     @ [''minimal-interaction'']
     @ [''frequent-device-reuse'', ''repeated-device-usage'', ''ip-abuse-pattern'',
        ''frequent-ip-usage'']
     @ [''headless-browser'', ''automation-tool'', ''bot-user-agent'', ''outdated-browser'']
     @ [''invalid-screen-resolution'']
     @ [''suspicious-timezone'']
     @ []"
  by (simp add: all_factors_def factor_table_def)

lemma accumulate_factors_subseq: "subseq (riskFactors (accumulate st s)) all_factors"
  unfolding accumulate_factors all_factors_split
  by (intro list_emb_append_mono conjunct1 [OF fingerprint_labelled]
      conjunct1 [OF incognito_labelled] conjunct1 [OF ip_labelled]
      conjunct1 [OF patterns_labelled] conjunct1 [OF speed_labelled]
      conjunct1 [OF burst_labelled] conjunct1 [OF minimal_labelled]
      conjunct1 [OF history_labelled] conjunct1 [OF user_agent_labelled]
      conjunct1 [OF screen_labelled] conjunct1 [OF timezone_labelled])
     (simp add: language_unlabelled)

lemma accumulate_factors_distinct: "distinct (riskFactors (accumulate st s))"
proof -
  have "riskFactors (accumulate st s) \<in> set (subseqs all_factors)"
    using accumulate_factors_subseq [of st s] by simp
  then show ?thesis
    by (rule subseqs_distinctD) (rule all_factors_distinct)
qed

lemma accumulate_score_labelled:
  "score (accumulate st s)
     = sum_list (map factor_points (riskFactors (accumulate st s))) + unlabelled_points s"
  unfolding accumulate_factors accumulate_score unlabelled_points_def
  using fingerprint_labelled [of s] incognito_labelled [of s] ip_labelled [of s]
    patterns_labelled [of s] speed_labelled [of s] burst_labelled [of s]
    minimal_labelled [of s] history_labelled [of st s] user_agent_labelled [of s]
    screen_labelled [of s] timezone_labelled [of s] language_unlabelled [of s]
  by simp


section \<open>Which fields a block reads\<close>

lemma step_fingerprint_reads:
  "confidence (deviceFingerprint s') = confidence (deviceFingerprint s)
   \<Longrightarrow> step_fingerprint s' = step_fingerprint s"
  by (simp add: step_fingerprint_def fun_eq_iff)

lemma step_incognito_reads:
  "incognitoDetection s' = incognitoDetection s \<Longrightarrow> step_incognito s' = step_incognito s"
  by (simp add: step_incognito_def fun_eq_iff)

lemma step_ip_reads: "ipAnalysis s' = ipAnalysis s \<Longrightarrow> step_ip s' = step_ip s"
  by (simp add: step_ip_def fun_eq_iff)

lemma behavior_steps_read:
  assumes "behaviorAnalysis s' = behaviorAnalysis s"
  shows "step_patterns s' = step_patterns s" "step_speed s' = step_speed s"
    "step_burst s' = step_burst s" "step_minimal s' = step_minimal s"
  using assms
  by (simp_all add: step_patterns_def step_speed_def step_burst_def step_minimal_def fun_eq_iff)

lemma step_history_reads:
  "visitorId (deviceFingerprint s') = visitorId (deviceFingerprint s)
   \<Longrightarrow> map_option ip (ipAnalysis s') = map_option ip (ipAnalysis s)
   \<Longrightarrow> step_history st s' = step_history st s"
  by (cases "ipAnalysis s'"; cases "ipAnalysis s")
     (simp_all add: step_history_def fun_eq_iff Let_def split: sum.split)

lemma device_steps_read:
  assumes "userAgent s' = userAgent s" "screenResolution s' = screenResolution s"
    "timezone s' = timezone s" "language s' = language s"
  shows "step_user_agent s' = step_user_agent s" "step_screen s' = step_screen s"
    "step_timezone s' = step_timezone s" "step_language s' = step_language s"
  using assms
  by (simp_all add: step_user_agent_def step_screen_def step_timezone_def step_language_def
        fun_eq_iff)

lemma result_from_score:
  "riskScore (calculateRiskScore st s) = clamp_score (score (accumulate st s))"
  "riskLevel (calculateRiskScore st s) = level_of (clamp_score (score (accumulate st s)))"
  by (simp_all add: calculateRiskScore_def Let_def)

lemma clamp_score_mono: "x \<le> y \<Longrightarrow> clamp_score x \<le> clamp_score y"
  unfolding clamp_score_def Math_round_def
  by (intro max.mono min.mono order_refl of_int_le_iff [THEN iffD2] floor_mono) simp


section \<open>Score bounds and tiers\<close>

lemma clamp_score_bounds: "0 \<le> clamp_score x \<and> clamp_score x \<le> 100"
  by (simp add: clamp_score_def)

lemma level_rank_mono: "a \<le> b \<Longrightarrow> level_rank (level_of a) \<le> level_rank (level_of b)"
  by (simp add: level_of_def)

text \<open>
  On the numbers of the model, none of which is NaN, the clamp keeps the returned score in
  \<open>[0, 100]\<close>, the tier is CRITICAL from 85, HIGH from 65, MEDIUM from 35 and LOW below, and
  a larger score never has a lower tier.
\<close>

lemma finite_score_bounds_and_tier:
  "0 \<le> riskScore (calculateRiskScore st s)
   \<and> riskScore (calculateRiskScore st s) \<le> 100
   \<and> riskLevel (calculateRiskScore st s) =
       (if riskScore (calculateRiskScore st s) \<ge> 85 then CRITICAL
        else if riskScore (calculateRiskScore st s) \<ge> 65 then HIGH
        else if riskScore (calculateRiskScore st s) \<ge> 35 then MEDIUM
        else LOW)
   \<and> (riskScore (calculateRiskScore st s) \<le> riskScore (calculateRiskScore st' s')
        \<longrightarrow> level_rank (riskLevel (calculateRiskScore st s))
            \<le> level_rank (riskLevel (calculateRiskScore st' s')))"
proof -
  have res: "\<And>t u. riskScore (calculateRiskScore t u) = clamp_score (score (accumulate t u))
                  \<and> riskLevel (calculateRiskScore t u)
                      = level_of (clamp_score (score (accumulate t u)))"
    by (simp add: calculateRiskScore_def Let_def)
  show ?thesis
    using clamp_score_bounds [of "score (accumulate st s)"]
      level_rank_mono [of "clamp_score (score (accumulate st s))"
                          "clamp_score (score (accumulate st' s'))"]
    by (simp add: res level_of_def)
qed

text \<open>On a score that is not NaN, \<open>finish_js\<close> is the clamp and the ladder of the model.\<close>

lemma js_level_of_finite: "js_level_of (Num c) = level_of c"
  by (simp add: js_level_of_def js_ge_def level_of_def)

lemma finish_js_finite:
  "finish_js (Num x)
     = \<lparr>js_riskScore = Num (clamp_score x), js_riskLevel = level_of (clamp_score x)\<rparr>"
  by (simp add: finish_js_def Let_def js_round_def js_min_def js_max_def js_level_of_finite
        clamp_score_def)



section \<open>Monotonicity in the reputation score\<close>

text \<open>
  Claim C9. Of two sessions that differ only in the network reputation score, scored against
  the same store, the one with the larger reputation score never gets the smaller risk
  score.
\<close>

theorem reputation_monotone:
  assumes "ipAnalysis s = Some a" and "ip_riskScore a \<le> r"
  shows "riskScore (calculateRiskScore st s)
           \<le> riskScore (calculateRiskScore st (s\<lparr>ipAnalysis := Some (a\<lparr>ip_riskScore := r\<rparr>)\<rparr>))"
proof -
  let ?s' = "s\<lparr>ipAnalysis := Some (a\<lparr>ip_riskScore := r\<rparr>)\<rparr>"
  have fp: "step_fingerprint ?s' = step_fingerprint s"
    by (rule step_fingerprint_reads) simp
  have inc: "step_incognito ?s' = step_incognito s"
    by (rule step_incognito_reads) simp
  have beh: "step_patterns ?s' = step_patterns s" "step_speed ?s' = step_speed s"
    "step_burst ?s' = step_burst s" "step_minimal ?s' = step_minimal s"
    by (rule behavior_steps_read; simp)+
  have dev: "step_user_agent ?s' = step_user_agent s" "step_screen ?s' = step_screen s"
    "step_timezone ?s' = step_timezone s" "step_language ?s' = step_language s"
    by (rule device_steps_read; simp)+
  have hist: "step_history st ?s' = step_history st s"
    by (rule step_history_reads) (simp_all add: assms(1))
  have ip_step: "score (step_ip ?s' init_scoring)
                   = score (step_ip s init_scoring) + (r - ip_riskScore a) * 0.4"
    by (simp add: step_ip_def assms(1) Let_def field_simps)
  have "score (accumulate st s) \<le> score (accumulate st ?s')"
    unfolding accumulate_score fp inc beh dev hist ip_step using assms(2) by simp
  then show ?thesis
    unfolding result_from_score by (rule clamp_score_mono)
qed

theorem reputation_monotone_witness:
  "ipAnalysis blacklisted_session = Some (clean_ip\<lparr>threatTypes := [''blacklisted'']\<rparr>)
   \<and> ip_riskScore (clean_ip\<lparr>threatTypes := [''blacklisted'']\<rparr>) \<le> 50
   \<and> riskScore (calculateRiskScore NoItem blacklisted_session)
       \<le> riskScore (calculateRiskScore NoItem
            (blacklisted_session
               \<lparr>ipAnalysis := Some (clean_ip\<lparr>threatTypes := [''blacklisted''], ip_riskScore := 50\<rparr>)\<rparr>))"
proof -
  have h1: "ipAnalysis blacklisted_session = Some (clean_ip\<lparr>threatTypes := [''blacklisted'']\<rparr>)"
    by (simp add: blacklisted_session_def)
  have h2: "ip_riskScore (clean_ip\<lparr>threatTypes := [''blacklisted'']\<rparr>) \<le> 50"
    by (simp add: clean_ip_def)
  from reputation_monotone [OF h1 h2, of NoItem] h1 h2 show ?thesis by simp
qed


section \<open>The history store is read during scoring\<close>

text \<open>
  The specification describes a scoring function that is handed its two history counters.
  The function reads them from the store itself: the same session scores differently
  against two stores.
\<close>

theorem history_store_read_counterexample:
  "calculateRiskScore NoItem clean_session \<noteq> calculateRiskScore seen_store clean_session"
  by code_simp

text \<open>
  Claim C2, as the code has it. The function reads the history store and never writes it
  (the store is an argument of the model and no result). The store influences the result
  through two counters only, the one of the session's device identifier and the one of its
  network address: two stores that agree on them give the same result for the same
  session. The one reading of the clock on this path, for the \<^verbatim>\<open>lastUpdated\<close> field of the
  default store, is discarded.
\<close>

theorem result_depends_on_counters_only:
  assumes "getDeviceCount st (visitorId (deviceFingerprint s))
             = getDeviceCount st' (visitorId (deviceFingerprint s))"
    and "\<forall>a. ipAnalysis s = Some a \<longrightarrow> getIPCount st (ip a) = getIPCount st' (ip a)"
  shows "calculateRiskScore st s = calculateRiskScore st' s"
proof -
  have "step_history st s = step_history st' s"
    using assms
    by (cases "ipAnalysis s") (simp_all add: step_history_def fun_eq_iff Let_def split: sum.split)
  then have "accumulate st s = accumulate st' s"
    by (simp add: accumulate_def)
  then show ?thesis
    by (simp add: calculateRiskScore_def)
qed

theorem result_depends_on_counters_only_witness:
  "getDeviceCount NoItem (visitorId (deviceFingerprint clean_session))
     = getDeviceCount other_store (visitorId (deviceFingerprint clean_session))
   \<and> ipAnalysis clean_session = None
   \<and> calculateRiskScore NoItem clean_session = calculateRiskScore other_store clean_session"
proof -
  have h1: "getDeviceCount NoItem (visitorId (deviceFingerprint clean_session))
              = getDeviceCount other_store (visitorId (deviceFingerprint clean_session))"
    by (simp add: getDeviceCount_def other_store_def clean_session_def defaultStored_def
          lookup_or_zero_def)
  have h2: "\<forall>a. ipAnalysis clean_session = Some a
              \<longrightarrow> getIPCount NoItem (ip a) = getIPCount other_store (ip a)"
    by (simp add: clean_session_def)
  have h3: "ipAnalysis clean_session = None"
    by (simp add: clean_session_def)
  from result_depends_on_counters_only [OF h1 h2] h1 h3 show ?thesis by simp
qed


section \<open>What the function returns\<close>

text \<open>
  The factor labels are collected in a local variable that is not part of the returned
  value: two sessions with different factor lists return the same value.
\<close>

theorem factors_not_returned_counterexample:
  "calculateRiskScore NoItem low_confidence_session = calculateRiskScore NoItem blacklisted_session
   \<and> riskFactors (accumulate NoItem low_confidence_session)
       \<noteq> riskFactors (accumulate NoItem blacklisted_session)"
  by code_simp

text \<open>
  Claim C3, as the code has it. The returned value consists of the score and the tier and is
  determined by the accumulated score alone; the tier is the tier of the returned score.
  The factor labels gathered on the way form a list without duplicates, which stays inside
  the function.
\<close>

theorem result_is_score_and_tier:
  "(score (accumulate st s) = score (accumulate st' s')
      \<longrightarrow> calculateRiskScore st s = calculateRiskScore st' s')
   \<and> riskLevel (calculateRiskScore st s) = level_of (riskScore (calculateRiskScore st s))
   \<and> distinct (riskFactors (accumulate st s))"
  by (simp add: calculateRiskScore_def Let_def accumulate_factors_distinct)

theorem result_is_score_and_tier_witness:
  "score (accumulate NoItem low_confidence_session) = score (accumulate NoItem blacklisted_session)
   \<and> calculateRiskScore NoItem low_confidence_session
       = calculateRiskScore NoItem blacklisted_session
   \<and> distinct (riskFactors (accumulate NoItem low_confidence_session))"
proof -
  have h: "score (accumulate NoItem low_confidence_session)
             = score (accumulate NoItem blacklisted_session)"
    by code_simp
  from result_is_score_and_tier [of NoItem low_confidence_session NoItem blacklisted_session] h
  show ?thesis by blast
qed


section \<open>Absent signals\<close>

text \<open>
  Claim C4. The model is a total function, so scoring returns for every session. A privacy
  signal that reports no detection (which is what the caller passes when the producer
  failed) leaves score and factors as they are; so does an absent network signal, for which
  the history block is left with the device counter only. With both absent the accumulated
  score is the sum of what the remaining blocks add.
\<close>

theorem absent_signals_add_nothing:
  "(\<not> isIncognito (incognitoDetection s) \<longrightarrow> step_incognito s acc = acc)
   \<and> (ipAnalysis s = None \<longrightarrow>
        step_ip s acc = acc
        \<and> step_history st s acc =
            (case getDeviceCount st (visitorId (deviceFingerprint s)) of
               Inl e \<Rightarrow> acc
             | Inr deviceCount \<Rightarrow> step_device_count deviceCount acc))
   \<and> (\<not> isIncognito (incognitoDetection s) \<and> ipAnalysis s = None \<longrightarrow>
        score (accumulate st s) =
          score (step_fingerprint s init_scoring) + score (step_patterns s init_scoring)
          + score (step_speed s init_scoring) + score (step_burst s init_scoring)
          + score (step_minimal s init_scoring)
          + (case getDeviceCount st (visitorId (deviceFingerprint s)) of
               Inl e \<Rightarrow> 0
             | Inr deviceCount \<Rightarrow> score (step_device_count deviceCount init_scoring))
          + score (step_user_agent s init_scoring) + score (step_screen s init_scoring)
          + score (step_timezone s init_scoring) + score (step_language s init_scoring))"
proof -
  have a: "\<not> isIncognito (incognitoDetection s) \<Longrightarrow> step_incognito s acc = acc" for acc
    by (simp add: step_incognito_def)
  have b: "ipAnalysis s = None \<Longrightarrow> step_ip s acc = acc" for acc
    by (simp add: step_ip_def)
  have c: "ipAnalysis s = None \<Longrightarrow>
             step_history st s acc =
               (case getDeviceCount st (visitorId (deviceFingerprint s)) of
                  Inl e \<Rightarrow> acc
                | Inr deviceCount \<Rightarrow> step_device_count deviceCount acc)" for acc
    by (simp add: step_history_def Let_def split: sum.split)
  have d: "score (case x of Inl e \<Rightarrow> init_scoring | Inr n \<Rightarrow> step_device_count n init_scoring)
             = (case x of Inl e \<Rightarrow> 0 | Inr n \<Rightarrow> score (step_device_count n init_scoring))"
    for x :: "js_error + real"
    by (cases x) simp_all
  show ?thesis
    using a b c by (simp add: accumulate_score d)
qed

theorem absent_signals_add_nothing_witness:
  "\<not> isIncognito (incognitoDetection scenario_a) \<and> ipAnalysis scenario_a = None
   \<and> step_incognito scenario_a init_scoring = init_scoring
   \<and> step_ip scenario_a init_scoring = init_scoring
   \<and> score (accumulate NoItem scenario_a) = 40"
proof -
  have h1: "\<not> isIncognito (incognitoDetection scenario_a)"
    by (simp add: scenario_a_def clean_session_def)
  have h2: "ipAnalysis scenario_a = None"
    by (simp add: scenario_a_def clean_session_def)
  have v: "score (accumulate NoItem scenario_a) = 40"
    by code_simp
  from absent_signals_add_nothing [of scenario_a init_scoring NoItem] h1 h2 v
  show ?thesis by simp
qed

section \<open>The two risk calculators\<close>

text \<open>
  The two implementations weigh the signals differently and draw the tiers at different
  scores. For an incognito session with a very low fingerprint confidence one returns 75
  and HIGH, the other 55 and MEDIUM.
\<close>

theorem calculators_differ_counterexample:
  "riskScore (calculateRiskScore NoItem incognito_session)
     \<noteq> riskScore (calculateRiskScore_basic NoItem incognito_session)
   \<and> riskLevel (calculateRiskScore NoItem incognito_session)
     \<noteq> riskLevel (calculateRiskScore_basic NoItem incognito_session)"
  by code_simp

text \<open>
  Claim C5, as the code has it. The two calculators agree on every session on which no
  rule of either fires: fingerprint confidence at least 0.7, no incognito detection, no
  network signal, no suspicious pattern, an interaction speed and a time on page that
  trigger none of the behaviour rules, a device counter of at most 5, a user agent without
  any marker, and a screen resolution, timezone and language that none of the device rules
  names. Both then return 0 and LOW.
\<close>

theorem calculators_agree_when_quiet:
  assumes "confidence (deviceFingerprint s) \<ge> 0.7"
    and "\<not> isIncognito (incognitoDetection s)"
    and "ipAnalysis s = None"
    and "suspiciousPatterns (behaviorAnalysis s) = []"
    and "interactionSpeed (behaviorAnalysis s) \<le> 1000"
    and "\<not> (interactionSpeed (behaviorAnalysis s) < 10 \<and> timeOnPage (behaviorAnalysis s) > 30000)"
    and "\<not> (timeOnPage (behaviorAnalysis s) < 5000 \<and> totalInteractions (behaviorAnalysis s) > 50)"
    and "\<not> (timeOnPage (behaviorAnalysis s) < 5000
            \<and> mouseMovements (behaviorAnalysis s) + keystrokes (behaviorAnalysis s) > 50)"
    and "\<not> (timeOnPage (behaviorAnalysis s) > 30000 \<and> totalInteractions (behaviorAnalysis s) < 5)"
    and "\<forall>c. getDeviceCount st (visitorId (deviceFingerprint s)) = Inr c \<longrightarrow> c \<le> 5"
    and "\<not> ua_headless (toLowerCase (userAgent s))"
    and "\<not> ua_automation (toLowerCase (userAgent s))"
    and "\<not> ua_bot (toLowerCase (userAgent s))"
    and "\<not> ua_outdated (toLowerCase (userAgent s))"
    and "screenResolution s \<noteq> ''0x0''" and "screenResolution s \<noteq> ''1x1''"
    and "timezone s \<noteq> []" and "timezone s \<noteq> ''UTC''"
    and "language s \<noteq> []" and "language s \<noteq> ''en''" and "language s \<noteq> ''en-US''"
  shows "calculateRiskScore st s = calculateRiskScore_basic st s
         \<and> calculateRiskScore st s = \<lparr>riskScore = 0, riskLevel = LOW\<rparr>"
proof -
  have "step_fingerprint s acc = acc" for acc
    using assms(1) by (simp add: step_fingerprint_def)
  moreover have "step_incognito s acc = acc" for acc
    using assms(2) by (simp add: step_incognito_def)
  moreover have "step_ip s acc = acc" for acc
    using assms(3) by (simp add: step_ip_def)
  moreover have "step_patterns s acc = acc" for acc
    using assms(4) by (simp add: step_patterns_def add_points_def)
  moreover have "step_speed s acc = acc" for acc
    using assms(5) by (simp add: step_speed_def)
  moreover have "step_burst s acc = acc" for acc
    using assms(7) by (auto simp add: step_burst_def Let_def)
  moreover have "step_minimal s acc = acc" for acc
    using assms(9) by (auto simp add: step_minimal_def Let_def)
  moreover have "step_history st s acc = acc" for acc
    using assms(3,10)
    by (cases "getDeviceCount st (visitorId (deviceFingerprint s))")
       (auto simp add: step_history_def step_device_count_def)
  moreover have "step_user_agent s acc = acc" for acc
    using assms(11-14) by (simp add: step_user_agent_def)
  moreover have "step_screen s acc = acc" for acc
    using assms(15,16) by (simp add: step_screen_def)
  moreover have "step_timezone s acc = acc" for acc
    using assms(17,18) by (simp add: step_timezone_def)
  moreover have "step_language s acc = acc" for acc
    using assms(19-21) by (simp add: step_language_def)
  ultimately have "score (accumulate st s) = 0"
    by (simp add: accumulate_def)
  then have new: "calculateRiskScore st s = \<lparr>riskScore = 0, riskLevel = LOW\<rparr>"
    by (simp add: calculateRiskScore_def clamp_score_def Math_round_def level_of_def)
  have "basic_fingerprint s sc = sc" for sc
    using assms(1) by (simp add: basic_fingerprint_def)
  moreover have "basic_incognito s sc = sc" for sc
    using assms(2) by (simp add: basic_incognito_def)
  moreover have "basic_ip s sc = sc" for sc
    using assms(3) by (simp add: basic_ip_def)
  moreover have "basic_behavior s sc = sc" for sc
    using assms(4,5,6,8) by (auto simp add: basic_behavior_def Let_def)
  moreover have "basic_history st s sc = sc" for sc
    using assms(3,10)
    by (cases "getDeviceCount st (visitorId (deviceFingerprint s))")
       (auto simp add: basic_history_def)
  moreover have "basic_user_agent s sc = sc" for sc
    using assms(11) by (simp add: basic_user_agent_def ua_headless_def)
  ultimately have old: "calculateRiskScore_basic st s = \<lparr>riskScore = 0, riskLevel = LOW\<rparr>"
    by (simp add: calculateRiskScore_basic_def basic_level_of_def)
  from new old show ?thesis by simp
qed

theorem calculators_agree_when_quiet_witness:
  "confidence (deviceFingerprint clean_session) \<ge> 0.7
   \<and> ipAnalysis clean_session = None
   \<and> calculateRiskScore NoItem clean_session = calculateRiskScore_basic NoItem clean_session
   \<and> calculateRiskScore NoItem clean_session = \<lparr>riskScore = 0, riskLevel = LOW\<rparr>"
proof -
  let ?b = "behaviorAnalysis clean_session"
  have h1: "confidence (deviceFingerprint clean_session) \<ge> 0.7"
    and h2: "\<not> isIncognito (incognitoDetection clean_session)"
    and h3: "ipAnalysis clean_session = None"
    and h4: "suspiciousPatterns ?b = []"
    and h5: "interactionSpeed ?b \<le> 1000"
    and h6: "\<not> (interactionSpeed ?b < 10 \<and> timeOnPage ?b > 30000)"
    and h7: "\<not> (timeOnPage ?b < 5000 \<and> totalInteractions ?b > 50)"
    and h8: "\<not> (timeOnPage ?b < 5000 \<and> mouseMovements ?b + keystrokes ?b > 50)"
    and h9: "\<not> (timeOnPage ?b > 30000 \<and> totalInteractions ?b < 5)"
    by (simp_all add: clean_session_def totalInteractions_def)
  have h10: "\<forall>c. getDeviceCount NoItem (visitorId (deviceFingerprint clean_session)) = Inr c
               \<longrightarrow> c \<le> 5"
    by (simp add: getDeviceCount_def defaultStored_def lookup_or_zero_def)
  have h11: "\<not> ua_headless (toLowerCase (userAgent clean_session))"
    and h12: "\<not> ua_automation (toLowerCase (userAgent clean_session))"
    and h13: "\<not> ua_bot (toLowerCase (userAgent clean_session))"
    and h14: "\<not> ua_outdated (toLowerCase (userAgent clean_session))"
    by code_simp+
  have h15: "screenResolution clean_session \<noteq> ''0x0''"
    "screenResolution clean_session \<noteq> ''1x1''"
    "timezone clean_session \<noteq> []" "timezone clean_session \<noteq> ''UTC''"
    "language clean_session \<noteq> []" "language clean_session \<noteq> ''en''"
    "language clean_session \<noteq> ''en-US''"
    by (simp_all add: clean_session_def)
  from calculators_agree_when_quiet [OF h1 h2 h3 h4 h5 h6 h7 h8 h9 h10 h11 h12 h13 h14 h15]
    h1 h3
  show ?thesis by blast
qed


section \<open>Scenario A\<close>

text \<open>
  The score also depends on the user agent, the screen resolution, the timezone and the
  language of the session, which the scenario leaves open. With the language \<^verbatim>\<open>en-US\<close> the
  session of the scenario scores 42.
\<close>

theorem scenario_a_language_counterexample:
  "confidence (deviceFingerprint scenario_a_en) = 0.2
   \<and> \<not> isIncognito (incognitoDetection scenario_a_en)
   \<and> ipAnalysis scenario_a_en = None
   \<and> suspiciousPatterns (behaviorAnalysis scenario_a_en) = []
   \<and> totalInteractions (behaviorAnalysis scenario_a_en) = 10
   \<and> timeOnPage (behaviorAnalysis scenario_a_en) = 60000
   \<and> interactionSpeed (behaviorAnalysis scenario_a_en) = 10
   \<and> getDeviceCount NoItem (visitorId (deviceFingerprint scenario_a_en)) = Inr 0
   \<and> calculateRiskScore NoItem scenario_a_en = \<lparr>riskScore = 42, riskLevel = MEDIUM\<rparr>"
  by code_simp

text \<open>
  Claim C6, as the code has it. A session with fingerprint confidence 0.2, no incognito
  detection, no network signal, no suspicious pattern, 10 interactions in 60000 ms at 10
  interactions per minute and a device counter of 0, whose user agent has none of the
  markers, whose screen resolution is neither \<^verbatim>\<open>0x0\<close> nor \<^verbatim>\<open>1x1\<close>, whose timezone is neither
  empty nor \<^verbatim>\<open>UTC\<close> and whose language is neither empty, \<^verbatim>\<open>en\<close> nor \<^verbatim>\<open>en-US\<close>, scores 40
  and is MEDIUM.
\<close>

theorem scenario_a_neutral_device:
  assumes "confidence (deviceFingerprint s) = 0.2"
    and "\<not> isIncognito (incognitoDetection s)"
    and "ipAnalysis s = None"
    and "suspiciousPatterns (behaviorAnalysis s) = []"
    and "totalInteractions (behaviorAnalysis s) = 10"
    and "timeOnPage (behaviorAnalysis s) = 60000"
    and "interactionSpeed (behaviorAnalysis s) = 10"
    and "getDeviceCount st (visitorId (deviceFingerprint s)) = Inr 0"
    and "\<not> ua_headless (toLowerCase (userAgent s))"
    and "\<not> ua_automation (toLowerCase (userAgent s))"
    and "\<not> ua_bot (toLowerCase (userAgent s))"
    and "\<not> ua_outdated (toLowerCase (userAgent s))"
    and "screenResolution s \<noteq> ''0x0''" and "screenResolution s \<noteq> ''1x1''"
    and "timezone s \<noteq> []" and "timezone s \<noteq> ''UTC''"
    and "language s \<noteq> []" and "language s \<noteq> ''en''" and "language s \<noteq> ''en-US''"
  shows "calculateRiskScore st s = \<lparr>riskScore = 40, riskLevel = MEDIUM\<rparr>"
proof -
  have "step_fingerprint s init_scoring
          = \<lparr>score = 40, riskFactors = [''very-low-fingerprint-confidence'']\<rparr>"
    using assms(1) by (simp add: step_fingerprint_def add_factor_def init_scoring_def)
  moreover have "step_incognito s acc = acc" for acc
    using assms(2) by (simp add: step_incognito_def)
  moreover have "step_ip s acc = acc" for acc
    using assms(3) by (simp add: step_ip_def)
  moreover have "step_patterns s acc = acc" for acc
    using assms(4) by (simp add: step_patterns_def add_points_def)
  moreover have "step_speed s acc = acc" for acc
    using assms(7) by (simp add: step_speed_def)
  moreover have "step_burst s acc = acc" for acc
    using assms(5,6) by (simp add: step_burst_def)
  moreover have "step_minimal s acc = acc" for acc
    using assms(5,6) by (simp add: step_minimal_def)
  moreover have "step_history st s acc = acc" for acc
    using assms(3,8) by (simp add: step_history_def step_device_count_def)
  moreover have "step_user_agent s acc = acc" for acc
    using assms(9-12) by (simp add: step_user_agent_def)
  moreover have "step_screen s acc = acc" for acc
    using assms(13,14) by (simp add: step_screen_def)
  moreover have "step_timezone s acc = acc" for acc
    using assms(15,16) by (simp add: step_timezone_def)
  moreover have "step_language s acc = acc" for acc
    using assms(17-19) by (simp add: step_language_def)
  ultimately have "score (accumulate st s) = 40"
    by (simp add: accumulate_def)
  then show ?thesis
    by (simp add: calculateRiskScore_def clamp_score_def Math_round_def level_of_def)
qed

theorem scenario_a_neutral_device_witness:
  "confidence (deviceFingerprint scenario_a) = 0.2
   \<and> totalInteractions (behaviorAnalysis scenario_a) = 10
   \<and> timeOnPage (behaviorAnalysis scenario_a) = 60000
   \<and> getDeviceCount NoItem (visitorId (deviceFingerprint scenario_a)) = Inr 0
   \<and> language scenario_a = ''fr-FR''
   \<and> calculateRiskScore NoItem scenario_a = \<lparr>riskScore = 40, riskLevel = MEDIUM\<rparr>"
proof -
  have h1: "confidence (deviceFingerprint scenario_a) = 0.2"
    and h2: "\<not> isIncognito (incognitoDetection scenario_a)"
    and h3: "ipAnalysis scenario_a = None"
    and h4: "suspiciousPatterns (behaviorAnalysis scenario_a) = []"
    and h5: "totalInteractions (behaviorAnalysis scenario_a) = 10"
    and h6: "timeOnPage (behaviorAnalysis scenario_a) = 60000"
    and h7: "interactionSpeed (behaviorAnalysis scenario_a) = 10"
    by (simp_all add: scenario_a_def clean_session_def totalInteractions_def)
  have h8: "getDeviceCount NoItem (visitorId (deviceFingerprint scenario_a)) = Inr 0"
    by (simp add: getDeviceCount_def defaultStored_def lookup_or_zero_def)
  have h9: "\<not> ua_headless (toLowerCase (userAgent scenario_a))"
    and h10: "\<not> ua_automation (toLowerCase (userAgent scenario_a))"
    and h11: "\<not> ua_bot (toLowerCase (userAgent scenario_a))"
    and h12: "\<not> ua_outdated (toLowerCase (userAgent scenario_a))"
    by code_simp+
  have h13: "screenResolution scenario_a \<noteq> ''0x0''" "screenResolution scenario_a \<noteq> ''1x1''"
    "timezone scenario_a \<noteq> []" "timezone scenario_a \<noteq> ''UTC''"
    "language scenario_a \<noteq> []" "language scenario_a \<noteq> ''en''"
    "language scenario_a \<noteq> ''en-US''" "language scenario_a = ''fr-FR''"
    by (simp_all add: scenario_a_def clean_session_def)
  from scenario_a_neutral_device [OF h1 h2 h3 h4 h5 h6 h7 h8 h9 h10 h11 h12 h13(1-7)]
    h1 h5 h6 h8 h13(8)
  show ?thesis by simp
qed


section \<open>Factor labels and the points they stand for\<close>

text \<open>
  Three additions come without a label: the scaled reputation score, the 12 points per
  suspicious pattern, and the 2 points for a default language. A session can therefore have
  a positive score and no factor at all.
\<close>

theorem unlabelled_points_counterexample:
  "score (accumulate NoItem english_session) = 2
   \<and> riskFactors (accumulate NoItem english_session) = []"
  by code_simp

text \<open>
  Claim C7, as the code has it. The factor list is a subsequence of the catalogue, so the
  labels appear in the order of the blocks and none appears twice. Every label stands for
  the points the catalogue gives it: on a session whose additions are additions of whole
  numbers, the accumulated score is the sum of the points of the labels in the list plus
  the three unlabelled additions.
\<close>

theorem factors_follow_catalogue:
  "subseq (riskFactors (accumulate st s)) all_factors
   \<and> distinct (riskFactors (accumulate st s))
   \<and> (whole_number_reputation s \<longrightarrow>
        score (accumulate st s)
          = sum_list (map factor_points (riskFactors (accumulate st s))) + unlabelled_points s)"
  using accumulate_factors_subseq [of st s] accumulate_factors_distinct [of st s]
    accumulate_score_labelled [of st s]
  by simp

theorem factors_follow_catalogue_witness:
  "whole_number_reputation rated_session
   \<and> riskFactors (accumulate NoItem rated_session) = [''blacklisted-ip'']
   \<and> unlabelled_points rated_session = 22
   \<and> score (accumulate NoItem rated_session)
       = sum_list (map factor_points (riskFactors (accumulate NoItem rated_session)))
         + unlabelled_points rated_session"
proof -
  have h: "whole_number_reputation rated_session"
    by code_simp
  have f: "riskFactors (accumulate NoItem rated_session) = [''blacklisted-ip'']"
    by code_simp
  have u: "unlabelled_points rated_session = 22"
    by code_simp
  from factors_follow_catalogue [of NoItem rated_session] h f u
  show ?thesis by simp
qed


section \<open>Out-of-range inputs\<close>

text \<open>
  The function uses its inputs as they come. A reputation score of 250 adds 100 points,
  where the clamped value 100 adds 40.
\<close>

theorem input_clamping_counterexample:
  "calculateRiskScore NoItem (spec_clamp_inputs overrated_session)
     \<noteq> calculateRiskScore NoItem overrated_session"
  by code_simp

text \<open>
  Negative event counts are used as given as well: ten movements below zero and twelve
  keystrokes count as two interactions, which the rule for sessions with little
  interaction picks up; with the count raised to zero it does not fire.
\<close>

lemma negative_counts_used_as_given:
  "calculateRiskScore NoItem negative_count_session = \<lparr>riskScore = 20, riskLevel = LOW\<rparr>
   \<and> calculateRiskScore NoItem (spec_clamp_inputs negative_count_session)
       = \<lparr>riskScore = 0, riskLevel = LOW\<rparr>"
  by code_simp

lemma step_fingerprint_clamped:
  "step_fingerprint (spec_clamp_confidences s) = step_fingerprint s"
  by (auto simp add: step_fingerprint_def spec_clamp_confidences_def clamp_range_def
        fun_eq_iff Let_def)

lemma step_incognito_clamped:
  "step_incognito (spec_clamp_confidences s) = step_incognito s"
  by (auto simp add: step_incognito_def spec_clamp_confidences_def clamp_range_def
        fun_eq_iff Let_def)

text \<open>
  Claim C8, as the code has it. No input is clamped; only the final score is. For the two
  confidences this makes no difference, all their thresholds lying strictly between 0 and
  1: clamping the device confidence and the incognito confidence to \<open>[0, 1]\<close> leaves the
  result unchanged.
\<close>

theorem clamped_confidences_same_result:
  "calculateRiskScore st (spec_clamp_confidences s) = calculateRiskScore st s"
proof -
  let ?s' = "spec_clamp_confidences s"
  have ipa: "step_ip ?s' = step_ip s"
    by (rule step_ip_reads) (simp add: spec_clamp_confidences_def)
  have beh: "step_patterns ?s' = step_patterns s" "step_speed ?s' = step_speed s"
    "step_burst ?s' = step_burst s" "step_minimal ?s' = step_minimal s"
    by (rule behavior_steps_read; simp add: spec_clamp_confidences_def)+
  have hist: "step_history st ?s' = step_history st s"
    by (rule step_history_reads) (simp_all add: spec_clamp_confidences_def)
  have dev: "step_user_agent ?s' = step_user_agent s" "step_screen ?s' = step_screen s"
    "step_timezone ?s' = step_timezone s" "step_language ?s' = step_language s"
    by (rule device_steps_read; simp add: spec_clamp_confidences_def)+
  have "accumulate st ?s' = accumulate st s"
    unfolding accumulate_def step_fingerprint_clamped step_incognito_clamped ipa beh hist dev
    by (rule refl)
  then show ?thesis
    by (simp add: calculateRiskScore_def)
qed


section \<open>The user agent\<close>

text \<open>
  The four user-agent rules add up. A user agent with a headless marker and the marker
  \<^verbatim>\<open>webdriver\<close> scores 115 points more than one without any marker, not 60.
\<close>

theorem headless_sixty_counterexample:
  "ua_headless (toLowerCase (userAgent headless_webdriver_session))
   \<and> \<not> ua_headless (toLowerCase (userAgent clean_session))
   \<and> \<not> ua_automation (toLowerCase (userAgent clean_session))
   \<and> \<not> ua_bot (toLowerCase (userAgent clean_session))
   \<and> \<not> ua_outdated (toLowerCase (userAgent clean_session))
   \<and> headless_webdriver_session
       = clean_session\<lparr>userAgent := userAgent headless_webdriver_session\<rparr>
   \<and> score (accumulate NoItem headless_webdriver_session) = 115
   \<and> score (accumulate NoItem clean_session) = 0"
  by code_simp

text \<open>
  Claim C10, as the code has it. The score depends on the user agent. Of two sessions whose
  additions are additions of whole numbers and that
  differ in the user agent only, the first with one of the markers \<^verbatim>\<open>headless\<close>,
  \<^verbatim>\<open>phantom\<close>, \<^verbatim>\<open>selenium\<close>, \<^verbatim>\<open>chromedriver\<close> in its lower-cased user agent, the second
  with none of them, and both with the same outcome of the other three user-agent rules,
  the first has an accumulated score exactly 60 points higher, and its factor list is that
  of the second with \<^verbatim>\<open>headless-browser\<close> inserted.
\<close>

theorem headless_adds_sixty:
  assumes "whole_number_reputation s"
    and "ua_headless (toLowerCase (userAgent s))"
    and "\<not> ua_headless (toLowerCase ua')"
    and "ua_automation (toLowerCase ua') = ua_automation (toLowerCase (userAgent s))"
    and "ua_bot (toLowerCase ua') = ua_bot (toLowerCase (userAgent s))"
    and "ua_outdated (toLowerCase ua') = ua_outdated (toLowerCase (userAgent s))"
  shows "score (accumulate st s) = score (accumulate st (s\<lparr>userAgent := ua'\<rparr>)) + 60
         \<and> (\<exists>pre post.
               riskFactors (accumulate st s) = pre @ ''headless-browser'' # post
               \<and> riskFactors (accumulate st (s\<lparr>userAgent := ua'\<rparr>)) = pre @ post)"
proof -
  let ?s' = "s\<lparr>userAgent := ua'\<rparr>"
  have fp: "step_fingerprint ?s' = step_fingerprint s"
    by (rule step_fingerprint_reads) simp
  have inc: "step_incognito ?s' = step_incognito s"
    by (rule step_incognito_reads) simp
  have ipa: "step_ip ?s' = step_ip s"
    by (rule step_ip_reads) simp
  have beh: "step_patterns ?s' = step_patterns s" "step_speed ?s' = step_speed s"
    "step_burst ?s' = step_burst s" "step_minimal ?s' = step_minimal s"
    by (rule behavior_steps_read; simp)+
  have hist: "step_history st ?s' = step_history st s"
    by (rule step_history_reads) simp_all
  have rest: "step_screen ?s' = step_screen s" "step_timezone ?s' = step_timezone s"
    "step_language ?s' = step_language s"
    by (simp_all add: step_screen_def step_timezone_def step_language_def fun_eq_iff)
  have ua_score: "score (step_user_agent s init_scoring)
                    = score (step_user_agent ?s' init_scoring) + 60"
    using assms(2-6) by (simp add: step_user_agent_def Let_def)
  have ua_factors: "riskFactors (step_user_agent s init_scoring)
                      = ''headless-browser'' # riskFactors (step_user_agent ?s' init_scoring)"
    using assms(2-6) by (simp add: step_user_agent_def Let_def)
  have sc: "score (accumulate st s) = score (accumulate st ?s') + 60"
    unfolding accumulate_score fp inc ipa beh hist rest ua_score by simp
  let ?pre = "riskFactors (step_fingerprint s init_scoring)
     @ riskFactors (step_incognito s init_scoring)
     @ riskFactors (step_ip s init_scoring) @ riskFactors (step_patterns s init_scoring)
     @ riskFactors (step_speed s init_scoring) @ riskFactors (step_burst s init_scoring)
     @ riskFactors (step_minimal s init_scoring) @ riskFactors (step_history st s init_scoring)"
  let ?post = "riskFactors (step_user_agent ?s' init_scoring)
     @ riskFactors (step_screen s init_scoring)
     @ riskFactors (step_timezone s init_scoring) @ riskFactors (step_language s init_scoring)"
  have f1: "riskFactors (accumulate st s) = ?pre @ ''headless-browser'' # ?post"
    unfolding accumulate_factors ua_factors by simp
  have f2: "riskFactors (accumulate st ?s') = ?pre @ ?post"
    unfolding accumulate_factors fp inc ipa beh hist rest by simp
  from sc f1 f2 show ?thesis by blast
qed

theorem headless_adds_sixty_witness:
  "whole_number_reputation headless_session
   \<and> ua_headless (toLowerCase (userAgent headless_session))
   \<and> \<not> ua_headless (toLowerCase (userAgent clean_session))
   \<and> score (accumulate NoItem headless_session)
       = score (accumulate NoItem (headless_session\<lparr>userAgent := userAgent clean_session\<rparr>)) + 60
   \<and> score (accumulate NoItem headless_session) = 60"
proof -
  have h0: "whole_number_reputation headless_session"
    by code_simp
  have h1: "ua_headless (toLowerCase (userAgent headless_session))"
    by code_simp
  have h2: "\<not> ua_headless (toLowerCase (userAgent clean_session))"
    by code_simp
  have h3: "ua_automation (toLowerCase (userAgent clean_session))
              = ua_automation (toLowerCase (userAgent headless_session))"
    by code_simp
  have h4: "ua_bot (toLowerCase (userAgent clean_session))
              = ua_bot (toLowerCase (userAgent headless_session))"
    by code_simp
  have h5: "ua_outdated (toLowerCase (userAgent clean_session))
              = ua_outdated (toLowerCase (userAgent headless_session))"
    by code_simp
  have v: "score (accumulate NoItem headless_session) = 60"
    by code_simp
  from headless_adds_sixty [OF h0 h1 h2 h3 h4 h5, of NoItem] h0 h1 h2 v
  show ?thesis by simp
qed

end
